theory Spec2Isabelle
  imports Main "HOL-Library.AList" "HOL-Library.List_Lexorder" "HOL-Library.Char_ord"
begin

section \<open>Python values used by the update scripts\<close>

text \<open>
  The five scripts under \<^verbatim>\<open>scripts/\<close> are embedded function by function. A Python
  \<^verbatim>\<open>str\<close> is modelled as a \<^typ>\<open>string\<close> whose characters are the code points 0 to 255,
  so \<^verbatim>\<open>str.lower\<close>, \<^verbatim>\<open>str.isspace\<close> and the \<^verbatim>\<open>re\<close> classes below are the Python
  ones restricted to that range.
\<close>

subsection \<open>Strings\<close>

definition py_lower_char :: "char \<Rightarrow> char" where
  \<comment> \<open>\<^verbatim>\<open>str.lower\<close> on one code point: A-Z, and the upper-case letters
      U+00C0..U+00DE without the multiplication sign U+00D7.\<close>
  "py_lower_char c =
     (let n = (of_char c :: nat)
      in if (65 \<le> n \<and> n \<le> 90) \<or> (192 \<le> n \<and> n \<le> 222 \<and> n \<noteq> 215)
         then char_of (n + 32) else c)"

definition py_lower :: "string \<Rightarrow> string" where
  "py_lower s = map py_lower_char s"

definition py_isspace :: "char \<Rightarrow> bool" where
  \<comment> \<open>\<^verbatim>\<open>str.isspace\<close> and the class \<^verbatim>\<open>\s\<close> of a \<^verbatim>\<open>str\<close> pattern: TAB..CR, FS..US,
      SPACE, NEL, NBSP.\<close>
  "py_isspace c =
     (let n = (of_char c :: nat)
      in (9 \<le> n \<and> n \<le> 13) \<or> (28 \<le> n \<and> n \<le> 32) \<or> n = 133 \<or> n = 160)"

definition py_strip :: "string \<Rightarrow> string" where
  "py_strip s = rev (dropWhile py_isspace (rev (dropWhile py_isspace s)))"

definition endswith :: "string \<Rightarrow> string \<Rightarrow> bool" where
  "endswith s suffix =
     (length suffix \<le> length s \<and> drop (length s - length suffix) s = suffix)"

fun py_in :: "string \<Rightarrow> string \<Rightarrow> bool" where
  \<comment> \<open>\<^verbatim>\<open>sub in s\<close> for strings: \<^verbatim>\<open>sub\<close> occurs as a contiguous slice of \<^verbatim>\<open>s\<close>.\<close>
  "py_in sub [] = (sub = [])"
| "py_in sub (c # cs) = (take (length sub) (c # cs) = sub \<or> py_in sub cs)"

subsection \<open>Errors\<close>

text \<open>Every \<^verbatim>\<open>raise\<close> of the scripts and every exception of a called library function
  that the model lets happen is one constructor.\<close>

datatype error =
    UnsupportedOS string              \<comment> \<open>\<^verbatim>\<open>RuntimeError(f"Unsupported OS: {sys}")\<close>\<close>
  | NoMacBuild                        \<comment> \<open>\<^verbatim>\<open>RuntimeError("... Spaghettikart has no macOS build available.")\<close>\<close>
  | HTTPError string                  \<comment> \<open>\<^verbatim>\<open>r.raise_for_status()\<close> for the URL\<close>
  | JSONDecodeError                   \<comment> \<open>\<^verbatim>\<open>json.load\<close> on an unparseable version.json\<close>
  | KeyError string                   \<comment> \<open>subscript of a dict with a missing key\<close>
  | TypeError                         \<comment> \<open>string subscript of a value that is not a dict\<close>
  | AttributeError                    \<comment> \<open>\<^verbatim>\<open>.get\<close> on a value that is not a dict\<close>
  | NoReleases                        \<comment> \<open>\<^verbatim>\<open>RuntimeError("No releases or pre-releases found.")\<close>\<close>
  | IndexError                        \<comment> \<open>subscript 0 of an empty list\<close>
  | NoMatchingAsset string            \<comment> \<open>\<^verbatim>\<open>RuntimeError(f"No matching asset for OS '{target_word}'")\<close>\<close>
  | NoAssetFound string               \<comment> \<open>\<^verbatim>\<open>RuntimeError(f"No asset found for: {os_tag}")\<close>\<close>
  | NoLinksFound                      \<comment> \<open>\<^verbatim>\<open>RuntimeError("No soh-<os>.zip artifact links found in PR body or HTML.")\<close>\<close>
  | ArtifactNotFound string "string list"
      \<comment> \<open>\<^verbatim>\<open>RuntimeError(f"Artifact for this OS ('{target_filename}') not found. Available links: {available}")\<close>\<close>
  | FileNotFoundError                 \<comment> \<open>\<^verbatim>\<open>zipfile.ZipFile\<close> on a path that does not exist\<close>
  | BadZipFile                        \<comment> \<open>\<^verbatim>\<open>zipfile\<close> failing on a corrupt archive\<close>

subsection \<open>JSON values\<close>

datatype json =
    JNull | JBool bool | JNum int | JStr string | JArr "json list"
  | JObj "(string \<times> json) list"

text \<open>Python's \<^verbatim>\<open>None\<close> is \<^const>\<open>JNull\<close>. A dict is the list of its items.\<close>

fun truthy :: "json \<Rightarrow> bool" where
  "truthy JNull = False"
| "truthy (JBool b) = b"
| "truthy (JNum n) = (n \<noteq> 0)"
| "truthy (JStr s) = (s \<noteq> [])"
| "truthy (JArr xs) = (xs \<noteq> [])"
| "truthy (JObj kvs) = (kvs \<noteq> [])"

fun subscript :: "json \<Rightarrow> string \<Rightarrow> error + json" where
  \<comment> \<open>\<^verbatim>\<open>local["key"]\<close>\<close>
  "subscript (JObj kvs) k =
     (case map_of kvs k of None \<Rightarrow> Inl (KeyError k) | Some v \<Rightarrow> Inr v)"
| "subscript _ k = Inl TypeError"

fun py_get :: "json \<Rightarrow> string \<Rightarrow> error + json" where
  \<comment> \<open>\<^verbatim>\<open>local.get("key")\<close>\<close>
  "py_get (JObj kvs) k =
     (case map_of kvs k of None \<Rightarrow> Inr JNull | Some v \<Rightarrow> Inr v)"
| "py_get _ k = Inl AttributeError"

section \<open>The environment of a run\<close>

record asset =
  name :: string
  browser_download_url :: string

record release =
  tag_name :: string
  assets :: "asset list"

text \<open>
  What the collaborators answer during one run. \<^const>\<open>None\<close> for a request is a
  response on which \<^verbatim>\<open>raise_for_status\<close> raises. An archive is given by the entries
  \<^verbatim>\<open>extractall\<close> writes, in order, and whether it runs to the end (otherwise it raises
  after writing them). The entries are files of the installation other than
  version.json and the downloads folder.
\<close>

record env =
  platform_system :: string                      \<comment> \<open>\<^verbatim>\<open>platform.system()\<close>\<close>
  releases_latest :: "release option"            \<comment> \<open>GET .../releases/latest\<close>
  releases_all :: "release list option"          \<comment> \<open>GET .../releases\<close>
  commits_branch :: "string option"              \<comment> \<open>GET .../commits/BRANCH, field sha\<close>
  pulls_body :: "string option option"           \<comment> \<open>GET .../pulls/N, field body (may be null)\<close>
  pull_page :: "string option"                   \<comment> \<open>GET https://github.com/REPO/pull/N\<close>
  asset_content :: "string \<Rightarrow> string option"      \<comment> \<open>streaming GET of a download URL\<close>
  zip_entries :: "string \<Rightarrow> (string \<times> string) list \<times> bool"

datatype version_json = Missing | Unparseable | Parsed json

datatype event =
    EvRequest string bool     \<comment> \<open>\<^verbatim>\<open>requests.get\<close> of an API or page URL; succeeded?\<close>
  | EvDownload string bool    \<comment> \<open>\<^verbatim>\<open>requests.get(url, stream=True)\<close> of an archive; succeeded?\<close>
  | EvExtract string bool     \<comment> \<open>\<^verbatim>\<open>extract_zip(filepath)\<close>; completed?\<close>
  | EvSave                    \<comment> \<open>\<^verbatim>\<open>save_local_version\<close>\<close>
  | EvClear                   \<comment> \<open>\<^verbatim>\<open>clear_downloads\<close>\<close>

text \<open>
  The files a run reads and writes, and the calls it has made so far.
  \<open>downloads = None\<close>: the folder DOWNLOAD_DIR does not exist.
\<close>

record world =
  version_file :: version_json
  downloads :: "(string \<rightharpoonup> string) option"
  script_dir :: "string \<rightharpoonup> string"
  trace :: "event list"

definition log :: "event \<Rightarrow> world \<Rightarrow> world" where
  "log ev w = w\<lparr>trace := trace w @ [ev]\<rparr>"

definition then_do ::
  "(error + 'a) \<times> world \<Rightarrow> ('a \<Rightarrow> world \<Rightarrow> (error + 'b) \<times> world) \<Rightarrow> (error + 'b) \<times> world" where
  \<comment> \<open>sequencing: an exception of the first statement ends the function\<close>
  "then_do r f = (case r of (Inl e, w) \<Rightarrow> (Inl e, w) | (Inr x, w) \<Rightarrow> f x w)"

definition pure :: "(error + 'a) \<Rightarrow> world \<Rightarrow> (error + 'a) \<times> world" where
  "pure r w = (r, w)"

section \<open>Functions shared by the scripts\<close>

definition load_local_version :: "world \<Rightarrow> (error + json) \<times> world" where
  "load_local_version w =
     (case version_file w of
        Missing \<Rightarrow> (Inr JNull, w)
      | Unparseable \<Rightarrow> (Inl JSONDecodeError, w)
      | Parsed j \<Rightarrow> (Inr j, w))"

definition write_version :: "json \<Rightarrow> world \<Rightarrow> world" where
  \<comment> \<open>\<^verbatim>\<open>with open(VERSION_FILE, "w") as f: json.dump(obj, f, indent=4)\<close>\<close>
  "write_version obj w = log EvSave (w\<lparr>version_file := Parsed obj\<rparr>)"

definition makedirs :: "world \<Rightarrow> world" where
  \<comment> \<open>\<^verbatim>\<open>os.makedirs(DOWNLOAD_DIR, exist_ok=True)\<close>\<close>
  "makedirs w =
     (case downloads w of None \<Rightarrow> w\<lparr>downloads := Some Map.empty\<rparr> | Some d \<Rightarrow> w)"

definition write_download :: "string \<Rightarrow> string \<Rightarrow> world \<Rightarrow> world" where
  \<comment> \<open>\<^verbatim>\<open>with open(filepath, "wb") as f: ... f.write(chunk)\<close>, the folder existing\<close>
  "write_download filename bytes w =
     (case downloads w of
        None \<Rightarrow> w
      | Some d \<Rightarrow> w\<lparr>downloads := Some (d(filename \<mapsto> bytes))\<rparr>)"

definition download_to :: "env \<Rightarrow> string \<Rightarrow> string \<Rightarrow> world \<Rightarrow> (error + string) \<times> world" where
  \<comment> \<open>the common body of \<^verbatim>\<open>download_asset\<close>, \<^verbatim>\<open>download_nightly\<close> and \<^verbatim>\<open>download_file\<close>:
      create the folder, request the URL, write the file, return its path\<close>
  "download_to en url filename w =
     (let w1 = makedirs w
      in case asset_content en url of
           None \<Rightarrow> (Inl (HTTPError url), log (EvDownload url False) w1)
         | Some bytes \<Rightarrow>
             (Inr filename, log (EvDownload url True) (write_download filename bytes w1)))"

definition unpack :: "(string \<times> string) list \<Rightarrow> world \<Rightarrow> world" where
  \<comment> \<open>\<^verbatim>\<open>zip_ref.extractall(SCRIPT_DIR)\<close>: each entry overwrites the file of its path\<close>
  "unpack entries w =
     w\<lparr>script_dir := fold (\<lambda>e m. m(fst e \<mapsto> snd e)) entries (script_dir w)\<rparr>"

definition extract_zip :: "env \<Rightarrow> string \<Rightarrow> world \<Rightarrow> (error + unit) \<times> world" where
  "extract_zip en filepath w =
     (case (case downloads w of None \<Rightarrow> None | Some d \<Rightarrow> d filepath) of
        None \<Rightarrow> (Inl FileNotFoundError, log (EvExtract filepath False) w)
      | Some bytes \<Rightarrow>
          (let w1 = unpack (fst (zip_entries en bytes)) w
           in if snd (zip_entries en bytes)
              then (Inr (), log (EvExtract filepath True) w1)
              else (Inl BadZipFile, log (EvExtract filepath False) w1)))"

definition clear_downloads :: "world \<Rightarrow> (error + unit) \<times> world" where
  \<comment> \<open>\<^verbatim>\<open>if os.path.exists(DOWNLOAD_DIR): shutil.rmtree(DOWNLOAD_DIR)\<close>\<close>
  "clear_downloads w = (Inr (), log EvClear (w\<lparr>downloads := None\<rparr>))"

definition request :: "string \<Rightarrow> 'a option \<Rightarrow> world \<Rightarrow> (error + 'a) \<times> world" where
  \<comment> \<open>\<^verbatim>\<open>r = requests.get(url); r.raise_for_status(); return ...\<close>\<close>
  "request url response w =
     (case response of
        None \<Rightarrow> (Inl (HTTPError url), log (EvRequest url False) w)
      | Some x \<Rightarrow> (Inr x, log (EvRequest url True) w))"

definition installed_field :: "string \<Rightarrow> json \<Rightarrow> world \<Rightarrow> (error + json) \<times> world" where
  \<comment> \<open>\<^verbatim>\<open>local[key] if local else None\<close>\<close>
  "installed_field key local w =
     (if truthy local then (subscript local key, w) else (Inr JNull, w))"

section \<open>2ship-Updatescript.py\<close>

definition REPO_2ship :: string where
  "REPO_2ship = ''HarbourMasters/2ship2harkinian''"

definition save_local_version_2ship :: "string \<Rightarrow> world \<Rightarrow> (error + unit) \<times> world" where
  "save_local_version_2ship version w =
     (Inr (), write_version
        (JObj [(''installed_version'', JStr version), (''repo'', JStr REPO_2ship)]) w)"

definition get_os_target_word :: "string \<Rightarrow> error + string" where
  "get_os_target_word system =
     (let sys = py_lower system
      in if sys = ''windows'' then Inr ''Win64''
         else if sys = ''linux'' then Inr ''Linux''
         else if sys = ''darwin'' then Inr ''Mac''
         else Inl (UnsupportedOS sys))"

definition get_latest_release_url :: string where
  "get_latest_release_url = ''https://api.github.com/repos/'' @ REPO_2ship @ ''/releases/latest''"

definition get_latest_release :: "env \<Rightarrow> world \<Rightarrow> (error + release) \<times> world" where
  "get_latest_release en w = request get_latest_release_url (releases_latest en) w"

definition download_asset :: "env \<Rightarrow> asset \<Rightarrow> world \<Rightarrow> (error + string) \<times> world" where
  "download_asset en a w = download_to en (browser_download_url a) (name a) w"

definition install_or_update_2ship :: "env \<Rightarrow> world \<Rightarrow> (error + unit) \<times> world" where
  "install_or_update_2ship en w0 =
     then_do (load_local_version w0) (\<lambda>local w.
     then_do (installed_field ''installed_version'' local w) (\<lambda>installed w.
     then_do (get_latest_release en w) (\<lambda>rel w.
       let latest = tag_name rel in
       if installed = JStr latest then (Inr (), w)
       else
         then_do (pure (get_os_target_word (platform_system en)) w) (\<lambda>word w.
           let target_word = py_lower word;
               candidates =
                 filter (\<lambda>a. endswith (py_lower (name a)) (''-'' @ target_word @ ''.zip''))
                   (assets rel)
           in case candidates of
                [] \<Rightarrow> (Inl (NoMatchingAsset target_word), w)
              | a # _ \<Rightarrow>
                  then_do (download_asset en a w) (\<lambda>zip_path w.
                  then_do (extract_zip en zip_path w) (\<lambda>_ w.
                  then_do (save_local_version_2ship latest w) (\<lambda>_ w.
                  clear_downloads w)))))))"

section \<open>Spaghettikart-Updatescript.py\<close>

definition REPO_kart :: string where
  "REPO_kart = ''HarbourMasters/Spaghettikart''"

definition save_local_version_kart :: "string \<Rightarrow> world \<Rightarrow> (error + unit) \<times> world" where
  "save_local_version_kart version w =
     (Inr (), write_version
        (JObj [(''installed_version'', JStr version), (''repo'', JStr REPO_kart)]) w)"

definition get_os_tag :: "string \<Rightarrow> error + string" where
  "get_os_tag system =
     (let sys = py_lower system
      in if sys = ''windows'' then Inr ''windows''
         else if sys = ''linux'' then Inr ''linux-old''
         else if sys = ''darwin'' then Inl NoMacBuild
         else Inl (UnsupportedOS sys))"

definition first_release :: "release list \<Rightarrow> error + release" where
  \<comment> \<open>\<^verbatim>\<open>releases[0]\<close>\<close>
  "first_release releases = (case releases of [] \<Rightarrow> Inl IndexError | r # _ \<Rightarrow> Inr r)"

definition get_latest_any_release_url :: string where
  "get_latest_any_release_url = ''https://api.github.com/repos/'' @ REPO_kart @ ''/releases''"

definition get_latest_any_release :: "env \<Rightarrow> world \<Rightarrow> (error + release) \<times> world" where
  "get_latest_any_release en w =
     then_do (request get_latest_any_release_url (releases_all en) w) (\<lambda>releases w.
       if releases = [] then (Inl NoReleases, w)
       else (first_release releases, w))"

definition install_or_update_kart :: "env \<Rightarrow> world \<Rightarrow> (error + unit) \<times> world" where
  "install_or_update_kart en w0 =
     then_do (load_local_version w0) (\<lambda>local w.
     then_do (installed_field ''installed_version'' local w) (\<lambda>installed w.
     then_do (get_latest_any_release en w) (\<lambda>rel w.
       let latest = tag_name rel in
       if installed = JStr latest then (Inr (), w)
       else
         then_do (pure (get_os_tag (platform_system en)) w) (\<lambda>os_tag w.
           let candidates =
                 filter (\<lambda>a. py_in os_tag (py_lower (name a))
                              \<and> endswith (py_lower (name a)) ''.zip'')
                   (assets rel)
           in case candidates of
                [] \<Rightarrow> (Inl (NoAssetFound os_tag), w)
              | a # _ \<Rightarrow>
                  then_do (download_asset en a w) (\<lambda>zip_path w.
                  then_do (extract_zip en zip_path w) (\<lambda>_ w.
                  then_do (save_local_version_kart latest w) (\<lambda>_ w.
                  clear_downloads w)))))))"

section \<open>SoH-Updatescript-Nightly.py\<close>

definition REPO_soh :: string where
  "REPO_soh = ''HarbourMasters/Shipwright''"

definition BRANCH_soh :: string where
  "BRANCH_soh = ''develop''"

definition NIGHTLY_BASE_soh :: string where
  "NIGHTLY_BASE_soh =
     ''https://nightly.link/'' @ REPO_soh @ ''/workflows/generate-builds/'' @ BRANCH_soh"

definition save_local_version_nightly :: "string \<Rightarrow> world \<Rightarrow> (error + unit) \<times> world" where
  \<comment> \<open>the same in both nightly scripts\<close>
  "save_local_version_nightly commit_sha w =
     (Inr (), write_version (JObj [(''latest_commit'', JStr commit_sha)]) w)"

definition get_latest_commit_sha_soh_url :: string where
  "get_latest_commit_sha_soh_url =
     ''https://api.github.com/repos/'' @ REPO_soh @ ''/commits/'' @ BRANCH_soh"

definition get_latest_commit_sha_soh :: "env \<Rightarrow> world \<Rightarrow> (error + string) \<times> world" where
  "get_latest_commit_sha_soh en w = request get_latest_commit_sha_soh_url (commits_branch en) w"

definition get_os_zip_name_soh :: "string \<Rightarrow> error + string" where
  "get_os_zip_name_soh system =
     (let sys = py_lower system
      in if sys = ''windows'' then Inr ''soh-windows.zip''
         else if sys = ''linux'' then Inr ''soh-linux.zip''
         else if sys = ''darwin'' then Inr ''soh-mac.zip''
         else Inl (UnsupportedOS sys))"

definition download_nightly_soh :: "env \<Rightarrow> string \<Rightarrow> world \<Rightarrow> (error + string) \<times> world" where
  "download_nightly_soh en zip_name w =
     download_to en (NIGHTLY_BASE_soh @ ''/'' @ zip_name) zip_name w"

definition install_latest_nightly_soh :: "env \<Rightarrow> world \<Rightarrow> (error + unit) \<times> world" where
  "install_latest_nightly_soh en w0 =
     then_do (load_local_version w0) (\<lambda>local w.
     then_do (installed_field ''latest_commit'' local w) (\<lambda>installed_commit w.
     then_do (get_latest_commit_sha_soh en w) (\<lambda>latest_commit w.
       if installed_commit = JStr latest_commit then clear_downloads w
       else
         then_do (pure (get_os_zip_name_soh (platform_system en)) w) (\<lambda>zip_name w.
         then_do (download_nightly_soh en zip_name w) (\<lambda>zip_path w.
         then_do (extract_zip en zip_path w) (\<lambda>_ w.
         then_do (save_local_version_nightly latest_commit w) (\<lambda>_ w.
         clear_downloads w)))))))"

section \<open>Spaghettikart-Updatescript-Nightly.py\<close>

definition REPO_kart_nightly :: string where
  "REPO_kart_nightly = ''HarbourMasters/SpaghettiKart''"

definition WORKFLOW_kart :: string where
  "WORKFLOW_kart = ''main''"

definition NIGHTLY_BASE_kart :: string where
  "NIGHTLY_BASE_kart =
     ''https://nightly.link/'' @ REPO_kart_nightly @ ''/workflows/'' @ WORKFLOW_kart @ ''/main''"

definition BRANCH_kart :: string where
  "BRANCH_kart = ''main''"

definition get_latest_commit_sha_kart_url :: string where
  "get_latest_commit_sha_kart_url =
     ''https://api.github.com/repos/'' @ REPO_kart_nightly @ ''/commits/'' @ BRANCH_kart"

definition get_latest_commit_sha_kart :: "env \<Rightarrow> world \<Rightarrow> (error + string) \<times> world" where
  "get_latest_commit_sha_kart en w = request get_latest_commit_sha_kart_url (commits_branch en) w"

definition get_os_zip_name_kart :: "string \<Rightarrow> error + string" where
  "get_os_zip_name_kart system =
     (let sys = py_lower system
      in if sys = ''linux'' then Inr ''spaghetti-linux-x64.zip''
         else if sys = ''windows'' then Inr ''spaghetti-windows.zip''
         else if sys = ''darwin'' then Inr ''spaghetti-mac-intel-x64.zip''
         else Inl (UnsupportedOS sys))"

definition download_nightly_kart :: "env \<Rightarrow> string \<Rightarrow> world \<Rightarrow> (error + string) \<times> world" where
  "download_nightly_kart en zip_name w =
     download_to en (NIGHTLY_BASE_kart @ ''/'' @ zip_name) zip_name w"

definition install_latest_nightly_kart :: "env \<Rightarrow> world \<Rightarrow> (error + unit) \<times> world" where
  "install_latest_nightly_kart en w0 =
     then_do (load_local_version w0) (\<lambda>local w.
     then_do (installed_field ''latest_commit'' local w) (\<lambda>installed_commit w.
     then_do (get_latest_commit_sha_kart en w) (\<lambda>latest_commit w.
       if installed_commit = JStr latest_commit then clear_downloads w
       else
         then_do (pure (get_os_zip_name_kart (platform_system en)) w) (\<lambda>zip_name w.
         then_do (download_nightly_kart en zip_name w) (\<lambda>zip_path w.
         then_do (extract_zip en zip_path w) (\<lambda>_ w.
         then_do (save_local_version_nightly latest_commit w) (\<lambda>_ w.
         clear_downloads w)))))))"

section \<open>SoH-Updatescript-Lynks.py\<close>

definition REPO_lynks :: string where
  "REPO_lynks = ''TheLynk/Shipwright''"

definition PR_NUMBER :: int where
  "PR_NUMBER = 11"

definition str_PR_NUMBER :: string where
  \<comment> \<open>\<^verbatim>\<open>PR_NUMBER\<close> as the f-strings print it\<close>
  "str_PR_NUMBER = ''11''"

definition ARTIFACT_OS_MAP :: "(string \<times> string) list" where
  "ARTIFACT_OS_MAP =
     [(''windows'', ''soh-windows.zip''),
      (''linux'', ''soh-linux.zip''),
      (''darwin'', ''soh-mac.zip'')]"

definition save_local_version_lynks :: "string \<Rightarrow> world \<Rightarrow> (error + unit) \<times> world" where
  "save_local_version_lynks download_url w =
     (Inr (), write_version
        (JObj [(''download_url'', JStr download_url),
               (''repo'', JStr REPO_lynks),
               (''pr_number'', JNum PR_NUMBER)]) w)"

definition get_os_key :: "string \<Rightarrow> error + string" where
  "get_os_key system =
     (let sysname = py_lower system
      in if sysname \<in> set (map fst ARTIFACT_OS_MAP) then Inr sysname
         else Inl (UnsupportedOS sysname))"

definition fetch_pr_body_url :: string where
  "fetch_pr_body_url = ''https://api.github.com/repos/'' @ REPO_lynks @ ''/pulls/'' @ str_PR_NUMBER"

definition pr_url :: string where
  "pr_url = ''https://github.com/'' @ REPO_lynks @ ''/pull/'' @ str_PR_NUMBER"

definition fetch_pr_body :: "env \<Rightarrow> world \<Rightarrow> (error + string) \<times> world" where
  \<comment> \<open>\<^verbatim>\<open>return data.get("body") or ""\<close>\<close>
  "fetch_pr_body en w =
     then_do (request fetch_pr_body_url (pulls_body en) w) (\<lambda>body w.
       (Inr (case body of None \<Rightarrow> [] | Some b \<Rightarrow> b), w))"

definition fetch_pr_html :: "env \<Rightarrow> string \<Rightarrow> world \<Rightarrow> (error + string) \<times> world" where
  "fetch_pr_html en url w = request url (pull_page en) w"

subsection \<open>The two regular expressions\<close>

text \<open>
  Both patterns are compiled with \<^verbatim>\<open>re.IGNORECASE\<close>. A match attempt at the head of a
  string returns the groups and the text after the match. Each repetition of a
  character class in the two patterns is followed by something no character of the
  class can start, so of all the lengths the backtracking matcher tries only the
  longest run can lead to a match; the lazy window \<^verbatim>\<open>[\s\S]{0,200}?\<close> is tried from the
  shortest length upwards.
\<close>

fun lit_ci :: "string \<Rightarrow> string \<Rightarrow> string option" where
  \<comment> \<open>a literal, ignoring case; returns the text after it\<close>
  "lit_ci [] s = Some s"
| "lit_ci (p # ps) [] = None"
| "lit_ci (p # ps) (c # cs) =
     (if py_lower_char c = py_lower_char p then lit_ci ps cs else None)"

definition not_rbracket :: "char \<Rightarrow> bool" where
  \<comment> \<open>\<^verbatim>\<open>[^\]]\<close>\<close>
  "not_rbracket c = (c \<noteq> CHR '']'')"

definition url_char :: "char \<Rightarrow> bool" where
  \<comment> \<open>\<^verbatim>\<open>[^\s)]\<close>\<close>
  "url_char c = (\<not> py_isspace c \<and> c \<noteq> CHR '')'')"

definition is_quote :: "char \<Rightarrow> bool" where
  \<comment> \<open>\<^verbatim>\<open>["']\<close>\<close>
  "is_quote c = (c = CHR 0x22 \<or> c = CHR 0x27)"

definition href_char :: "char \<Rightarrow> bool" where
  \<comment> \<open>\<^verbatim>\<open>[^\s"'>]\<close>\<close>
  "href_char c = (\<not> py_isspace c \<and> \<not> is_quote c \<and> c \<noteq> CHR ''>'')"

definition match_markdown_link :: "string \<Rightarrow> ((string \<times> string) \<times> string) option" where
  \<comment> \<open>\<^verbatim>\<open>\[([^\]]+)\]\(\s*(https?://[^\s)]+)\s*\)\<close>\<close>
  "match_markdown_link s =
     (case lit_ci ''['' s of None \<Rightarrow> None | Some s1 \<Rightarrow>
      let text = takeWhile not_rbracket s1; s2 = dropWhile not_rbracket s1 in
      if text = [] then None else
      (case lit_ci '']('' s2 of None \<Rightarrow> None | Some s3 \<Rightarrow>
       let u = dropWhile py_isspace s3 in
       (case lit_ci ''http'' u of None \<Rightarrow> None | Some s4 \<Rightarrow>
        (case (case lit_ci ''s://'' s4 of Some r \<Rightarrow> Some r | None \<Rightarrow> lit_ci ''://'' s4) of
           None \<Rightarrow> None
         | Some s5 \<Rightarrow>
            let s6 = dropWhile url_char s5 in
            if takeWhile url_char s5 = [] then None else
            (case lit_ci '')'' (dropWhile py_isspace s6) of
               None \<Rightarrow> None
             | Some rest \<Rightarrow> Some ((text, take (length u - length s6) u), rest))))))"

definition match_href :: "string \<Rightarrow> (string \<times> string) option" where
  \<comment> \<open>\<^verbatim>\<open>href=["'](https://nightly\.link/[^\s"'>]+)["']\<close>\<close>
  "match_href s =
     (case lit_ci ''href='' s of None \<Rightarrow> None | Some s1 \<Rightarrow>
      (case s1 of [] \<Rightarrow> None | q # s2 \<Rightarrow>
       if \<not> is_quote q then None else
       (case lit_ci ''https://nightly.link/'' s2 of None \<Rightarrow> None | Some s3 \<Rightarrow>
        let s4 = dropWhile href_char s3 in
        if takeWhile href_char s3 = [] then None else
        (case s4 of [] \<Rightarrow> None | q2 # s5 \<Rightarrow>
         if \<not> is_quote q2 then None
         else Some (take (length s2 - length s4) s2, s5)))))"

fun lazy_window :: "nat \<Rightarrow> (string \<Rightarrow> 'a option) \<Rightarrow> string \<Rightarrow> 'a option" where
  \<comment> \<open>\<^verbatim>\<open>[\s\S]{0,n}?\<close> followed by the rest of the pattern\<close>
  "lazy_window n k [] = k []"
| "lazy_window n k (c # cs) =
     (case k (c # cs) of
        Some r \<Rightarrow> Some r
      | None \<Rightarrow> if n = 0 then None else lazy_window (n - 1) k cs)"

fun first_some :: "'a option list \<Rightarrow> 'a option" where
  "first_some [] = None"
| "first_some (x # xs) = (case x of Some r \<Rightarrow> Some r | None \<Rightarrow> first_some xs)"

definition match_nightly_link :: "string \<Rightarrow> ((string \<times> string) \<times> string) option" where
  \<comment> \<open>\<^verbatim>\<open>(soh-(?:windows|linux|mac)\.zip)[\s\S]{0,200}?href=["'](https://nightly\.link/[^\s"'>]+)["']\<close>\<close>
  "match_nightly_link s =
     (case lit_ci ''soh-'' s of None \<Rightarrow> None | Some s1 \<Rightarrow>
      first_some (map (\<lambda>os.
        case lit_ci os s1 of None \<Rightarrow> None | Some s2 \<Rightarrow>
        (case lit_ci ''.zip'' s2 of None \<Rightarrow> None | Some s3 \<Rightarrow>
         (case lazy_window 200 match_href s3 of
            None \<Rightarrow> None
          | Some (url, rest) \<Rightarrow> Some ((take (length s - length s3) s, url), rest))))
        [''windows'', ''linux'', ''mac'']))"

fun scan :: "(string \<Rightarrow> ('g \<times> string) option) \<Rightarrow> nat \<Rightarrow> string \<Rightarrow> 'g list" where
  \<comment> \<open>the matches from left to right; \<open>skip\<close> characters still belong to the last match\<close>
  "scan m skip [] = []"
| "scan m skip (c # cs) =
     (if 0 < skip then scan m (skip - 1) cs
      else case m (c # cs) of
             None \<Rightarrow> scan m 0 cs
           | Some (g, rest) \<Rightarrow> g # scan m (length cs - length rest) cs)"

definition finditer :: "(string \<Rightarrow> ('g \<times> string) option) \<Rightarrow> string \<Rightarrow> 'g list" where
  \<comment> \<open>\<^verbatim>\<open>pattern.finditer(text)\<close> for a pattern that matches no empty string\<close>
  "finditer m s = scan m 0 s"

definition is_soh_zip :: "string \<Rightarrow> bool" where
  \<comment> \<open>\<^verbatim>\<open>re.match(r"^soh-(windows|linux|mac)\.zip$", text, flags=re.IGNORECASE)\<close>;
      \<^verbatim>\<open>$\<close> also matches before a final newline\<close>
  "is_soh_zip text =
     (case lit_ci ''soh-'' text of None \<Rightarrow> False | Some s1 \<Rightarrow>
      list_ex (\<lambda>os.
        case lit_ci os s1 of None \<Rightarrow> False | Some s2 \<Rightarrow>
        (case lit_ci ''.zip'' s2 of None \<Rightarrow> False | Some r \<Rightarrow> r = [] \<or> r = [CHR 0x0A]))
        [''windows'', ''linux'', ''mac''])"

definition body_entry :: "string \<times> string \<Rightarrow> (string \<times> string) option" where
  \<comment> \<open>one iteration of the loop of \<^verbatim>\<open>extract_markdown_links_from_body\<close>: the item it stores\<close>
  "body_entry g =
     (let text = py_strip (fst g); url = py_strip (snd g)
      in if is_soh_zip text then Some (py_lower text, url) else None)"

definition html_entry :: "string \<times> string \<Rightarrow> (string \<times> string) option" where
  \<comment> \<open>one iteration of the loop of \<^verbatim>\<open>extract_nightly_links_from_html\<close>\<close>
  "html_entry g = Some (py_lower (py_strip (fst g)), py_strip (snd g))"

definition store :: "(string \<times> string) option \<Rightarrow> (string \<times> string) list \<Rightarrow> (string \<times> string) list" where
  \<comment> \<open>\<^verbatim>\<open>links[name] = url\<close> on a dict that keeps insertion order\<close>
  "store e links = (case e of None \<Rightarrow> links | Some (k, v) \<Rightarrow> AList.update k v links)"

definition extract_markdown_links_from_body :: "string \<Rightarrow> (string \<times> string) list" where
  "extract_markdown_links_from_body body =
     fold (\<lambda>g links. store (body_entry g) links) (finditer match_markdown_link body) []"

definition extract_nightly_links_from_html :: "string \<Rightarrow> (string \<times> string) list" where
  "extract_nightly_links_from_html html =
     fold (\<lambda>g links. store (html_entry g) links) (finditer match_nightly_link html) []"

subsection \<open>Main logic\<close>

definition download_file :: "env \<Rightarrow> string \<Rightarrow> string \<Rightarrow> world \<Rightarrow> (error + string) \<times> world" where
  "download_file en url filename w = download_to en url filename w"

definition body_links :: "env \<Rightarrow> world \<Rightarrow> (string \<times> string) list \<times> world" where
  \<comment> \<open>step 1 of \<^verbatim>\<open>install_or_update_from_pr\<close>: the request's exception is caught
      and leaves \<^verbatim>\<open>body = ""\<close>\<close>
  "body_links en w =
     (case fetch_pr_body en w of
        (Inl e, w1) \<Rightarrow> ([], w1)
      | (Inr body, w1) \<Rightarrow>
          (if body \<noteq> [] then extract_markdown_links_from_body body else [], w1))"

definition html_links :: "env \<Rightarrow> (string \<times> string) list \<Rightarrow> world \<Rightarrow> (string \<times> string) list \<times> world" where
  \<comment> \<open>step 2: the fallback, only when step 1 found no link; its exception is caught\<close>
  "html_links en links w =
     (if links = [] then
        (case fetch_pr_html en pr_url w of
           (Inl e, w1) \<Rightarrow> ([], w1)
         | (Inr html, w1) \<Rightarrow> (extract_nightly_links_from_html html, w1))
      else (links, w))"

definition install_from_links ::
  "env \<Rightarrow> string \<Rightarrow> json \<Rightarrow> (string \<times> string) list \<Rightarrow> world \<Rightarrow> (error + unit) \<times> world" where
  \<comment> \<open>the rest of \<^verbatim>\<open>install_or_update_from_pr\<close>, from \<^verbatim>\<open>if not links\<close> on\<close>
  "install_from_links en target_filename local links w =
     (if links = [] then (Inl NoLinksFound, w)
      else
        (case map_of links target_filename of
           None \<Rightarrow> (Inl (ArtifactNotFound target_filename (sort (map fst links))), w)
         | Some download_url \<Rightarrow>
             then_do (if truthy local then (py_get local ''download_url'', w)
                      else (Inr JNull, w)) (\<lambda>recorded w.
               if truthy local \<and> recorded = JStr download_url then (Inr (), w)
               else
                 then_do (download_file en download_url target_filename w) (\<lambda>zip_path w.
                 then_do (extract_zip en zip_path w) (\<lambda>_ w.
                 then_do (save_local_version_lynks download_url w) (\<lambda>_ w.
                 clear_downloads w))))))"

definition install_or_update_from_pr :: "env \<Rightarrow> world \<Rightarrow> (error + unit) \<times> world" where
  "install_or_update_from_pr en w0 =
     then_do (pure (get_os_key (platform_system en)) w0) (\<lambda>os_key w.
     then_do (pure (case map_of ARTIFACT_OS_MAP os_key of
                      None \<Rightarrow> Inl (KeyError os_key)
                    | Some f \<Rightarrow> Inr (py_lower f)) w) (\<lambda>target_filename w.
     then_do (load_local_version w) (\<lambda>local w.
       let (links1, w1) = body_links en w;
           (links, w2) = html_links en links1 w1
       in install_from_links en target_filename local links w2)))"

section \<open>The five entry points\<close>


section \<open>Observations on a run\<close>



fun is_fetch :: "event \<Rightarrow> bool" where
  \<comment> \<open>a download, an extraction or a write of version.json\<close>
  "is_fetch (EvRequest url ok) = False"
| "is_fetch EvClear = False"
| "is_fetch _ = True"


definition installed_id :: "string \<Rightarrow> world \<Rightarrow> error + json" where
  \<comment> \<open>the first two statements of the release and nightly entry points:
      \<^verbatim>\<open>local = load_local_version(); installed = local[key] if local else None\<close>\<close>
  "installed_id key w =
     (case fst (load_local_version w) of
        Inl e \<Rightarrow> Inl e
      | Inr local \<Rightarrow> fst (installed_field key local w))"


definition calls :: "world \<Rightarrow> (error + unit) \<times> world \<Rightarrow> event list" where
  \<comment> \<open>the calls a run started in \<open>w\<close> has made\<close>
  "calls w p = drop (length (trace w)) (trace (snd p))"

definition release_scripts :: "(env \<Rightarrow> world \<Rightarrow> (error + unit) \<times> world) list" where
  \<comment> \<open>the tagged-release and nightly entry points\<close>
  "release_scripts =
     [install_or_update_2ship, install_or_update_kart,
      install_latest_nightly_soh, install_latest_nightly_kart]"




section \<open>Sample inputs\<close>

definition sample_release :: release where
  "sample_release =
     \<lparr>tag_name = ''1.0.1'',
      assets = [\<lparr>name = ''game-linux-old-Linux.zip'',
                 browser_download_url = ''https://example.org/game-Linux.zip''\<rparr>]\<rparr>"

definition sample_page :: string where
  "sample_page =
     ''<a>soh-linux.zip</a> <a href='' @ [CHR 0x22] @ ''https://nightly.link/a/b''
       @ [CHR 0x22] @ ''>''"

definition sample_env :: env where
  "sample_env =
     \<lparr>platform_system = ''Linux'',
      releases_latest = Some sample_release,
      releases_all = Some [sample_release],
      commits_branch = Some ''abc123'',
      pulls_body = Some (Some ''[soh-linux.zip](https://nightly.link/x/y/soh-linux.zip)''),
      pull_page = Some sample_page,
      asset_content = (\<lambda>url. Some ''PK''),
      zip_entries = (\<lambda>bytes. ([(''game.bin'', ''ELF'')], True))\<rparr>"

definition fresh_world :: world where
  "fresh_world =
     \<lparr>version_file = Missing, downloads = None, script_dir = Map.empty, trace = []\<rparr>"

definition stale_world :: world where
  \<comment> \<open>version 1.0.1 installed; an archive left in the downloads folder by an earlier run
      that failed while extracting\<close>
  "stale_world =
     \<lparr>version_file = Parsed (JObj [(''installed_version'', JStr ''1.0.1''),
                                   (''repo'', JStr REPO_2ship)]),
      downloads = Some [''old-Linux.zip'' \<mapsto> ''PK''],
      script_dir = Map.empty,
      trace = []\<rparr>"









section \<open>Evaluation and sequencing lemmas\<close>

lemmas lower_eval = py_lower_def py_lower_char_def char_of_eq_iff

lemmas os_defs = get_os_target_word_def get_os_zip_name_soh_def get_os_zip_name_kart_def
  get_os_key_def get_os_tag_def ARTIFACT_OS_MAP_def

lemma then_do_alt:
  "then_do r f = (case fst r of Inl e \<Rightarrow> (Inl e, snd r) | Inr x \<Rightarrow> f x (snd r))"
  by (simp add: then_do_def split: prod.splits sum.splits)

lemma log_proj [simp]:
  "trace (log ev w) = trace w @ [ev]"
  "version_file (log ev w) = version_file w"
  "downloads (log ev w) = downloads w"
  "script_dir (log ev w) = script_dir w"
  by (simp_all add: log_def)

lemma makedirs_proj [simp]:
  "trace (makedirs w) = trace w"
  "version_file (makedirs w) = version_file w"
  "downloads (makedirs w) = Some (case downloads w of None \<Rightarrow> Map.empty | Some d \<Rightarrow> d)"
  "script_dir (makedirs w) = script_dir w"
  by (simp_all add: makedirs_def split: option.splits)

lemma write_download_proj [simp]:
  "trace (write_download f b w) = trace w"
  "version_file (write_download f b w) = version_file w"
  "downloads (write_download f b w) =
     (case downloads w of None \<Rightarrow> None | Some d \<Rightarrow> Some (d(f \<mapsto> b)))"
  "script_dir (write_download f b w) = script_dir w"
  by (simp_all add: write_download_def split: option.splits)

lemma write_version_proj [simp]:
  "trace (write_version obj w) = trace w @ [EvSave]"
  "version_file (write_version obj w) = Parsed obj"
  "downloads (write_version obj w) = downloads w"
  "script_dir (write_version obj w) = script_dir w"
  by (simp_all add: write_version_def)

lemma unpack_proj [simp]:
  "trace (unpack es w) = trace w"
  "version_file (unpack es w) = version_file w"
  "downloads (unpack es w) = downloads w"
  by (simp_all add: unpack_def)

lemma pure_proj [simp]: "fst (pure r w) = r" "snd (pure r w) = w"
  by (simp_all add: pure_def)

lemma load_snd [simp]: "snd (load_local_version w) = w"
  by (simp add: load_local_version_def split: version_json.splits)

lemma installed_field_snd [simp]: "snd (installed_field k l w) = w"
  by (simp add: installed_field_def)

lemma request_proj [simp]:
  "fst (request url resp w) = (case resp of None \<Rightarrow> Inl (HTTPError url) | Some x \<Rightarrow> Inr x)"
  "snd (request url resp w) = log (EvRequest url (resp \<noteq> None)) w"
  by (simp_all add: request_def split: option.splits)

lemma download_to_proj [simp]:
  "fst (download_to en url f w) =
     (case asset_content en url of None \<Rightarrow> Inl (HTTPError url) | Some b \<Rightarrow> Inr f)"
  "snd (download_to en url f w) =
     (case asset_content en url of
        None \<Rightarrow> log (EvDownload url False) (makedirs w)
      | Some b \<Rightarrow> log (EvDownload url True) (write_download f b (makedirs w)))"
  by (simp_all add: download_to_def Let_def split: option.splits)

lemma extract_zip_proj:
  "downloads w = Some d \<Longrightarrow> d f = Some b \<Longrightarrow>
   fst (extract_zip en f w) = (if snd (zip_entries en b) then Inr () else Inl BadZipFile)"
  "downloads w = Some d \<Longrightarrow> d f = Some b \<Longrightarrow>
   snd (extract_zip en f w) =
     log (EvExtract f (snd (zip_entries en b))) (unpack (fst (zip_entries en b)) w)"
  by (simp_all add: extract_zip_def Let_def)

lemma clear_downloads_proj [simp]:
  "fst (clear_downloads w) = Inr ()"
  "trace (snd (clear_downloads w)) = trace w @ [EvClear]"
  "version_file (snd (clear_downloads w)) = version_file w"
  "downloads (snd (clear_downloads w)) = None"
  "script_dir (snd (clear_downloads w)) = script_dir w"
  by (simp_all add: clear_downloads_def)



lemmas save_defs = save_local_version_2ship_def save_local_version_kart_def
  save_local_version_nightly_def save_local_version_lynks_def

lemmas run_simps = then_do_alt get_latest_release_def get_latest_any_release_def
  get_latest_commit_sha_soh_def get_latest_commit_sha_kart_def
  download_asset_def download_nightly_soh_def download_nightly_kart_def download_file_def
  save_defs extract_zip_proj Let_def case_prod_beta

lemmas run_splits = sum.splits option.splits if_splits list.splits

lemma calls_simp [simp]: "trace (snd p) = trace w @ evs \<Longrightarrow> calls w p = evs"
  by (simp add: calls_def)

section \<open>OS key resolution\<close>

text \<open>
  Claim C4. The OS-key resolution is a fixed lookup on the lower-cased platform name:
  \<open>windows\<close>, \<open>linux\<close> and \<open>darwin\<close> each map to one key or asset name, every other
  name fails with the unsupported-OS error, and none of the three raises.

  As stated this fails for \<^verbatim>\<open>get_os_tag\<close> of Spaghettikart-Updatescript.py: on
  \<open>darwin\<close> it raises, with its own message that there is no macOS build.
\<close>

theorem os_lookup_darwin_counterexample:
  "py_lower ''Darwin'' = ''darwin'' \<and> get_os_tag ''Darwin'' = Inl NoMacBuild"
  by (simp add: get_os_tag_def lower_eval)

text \<open>
  Claim C4, amended. In the four other scripts each of the three names maps to one
  value and nothing raises; \<^verbatim>\<open>get_os_tag\<close> maps \<open>windows\<close> and \<open>linux\<close> to one tag each
  and raises its no-macOS-build error on \<open>darwin\<close>; in all five every other name
  raises the unsupported-OS error carrying the lower-cased name.
\<close>

theorem os_lookup_fixed:
  "(py_lower system = ''windows'' \<longrightarrow>
      get_os_target_word system = Inr ''Win64'' \<and>
      get_os_zip_name_soh system = Inr ''soh-windows.zip'' \<and>
      get_os_zip_name_kart system = Inr ''spaghetti-windows.zip'' \<and>
      get_os_key system = Inr ''windows'' \<and>
      get_os_tag system = Inr ''windows'') \<and>
   (py_lower system = ''linux'' \<longrightarrow>
      get_os_target_word system = Inr ''Linux'' \<and>
      get_os_zip_name_soh system = Inr ''soh-linux.zip'' \<and>
      get_os_zip_name_kart system = Inr ''spaghetti-linux-x64.zip'' \<and>
      get_os_key system = Inr ''linux'' \<and>
      get_os_tag system = Inr ''linux-old'') \<and>
   (py_lower system = ''darwin'' \<longrightarrow>
      get_os_target_word system = Inr ''Mac'' \<and>
      get_os_zip_name_soh system = Inr ''soh-mac.zip'' \<and>
      get_os_zip_name_kart system = Inr ''spaghetti-mac-intel-x64.zip'' \<and>
      get_os_key system = Inr ''darwin'' \<and>
      get_os_tag system = Inl NoMacBuild) \<and>
   (py_lower system \<notin> {''windows'', ''linux'', ''darwin''} \<longrightarrow>
      get_os_target_word system = Inl (UnsupportedOS (py_lower system)) \<and>
      get_os_zip_name_soh system = Inl (UnsupportedOS (py_lower system)) \<and>
      get_os_zip_name_kart system = Inl (UnsupportedOS (py_lower system)) \<and>
      get_os_key system = Inl (UnsupportedOS (py_lower system)) \<and>
      get_os_tag system = Inl (UnsupportedOS (py_lower system)))"
  by (simp add: os_defs)

theorem os_lookup_fixed_witness:
  "get_os_target_word ''Windows'' = Inr ''Win64'' \<and>
   get_os_zip_name_soh ''Linux'' = Inr ''soh-linux.zip'' \<and>
   get_os_key ''Darwin'' = Inr ''darwin'' \<and>
   get_os_tag ''Darwin'' = Inl NoMacBuild \<and>
   get_os_zip_name_kart ''FreeBSD'' = Inl (UnsupportedOS ''freebsd'')"
  using os_lookup_fixed [of "''Windows''"] os_lookup_fixed [of "''Linux''"]
    os_lookup_fixed [of "''Darwin''"] os_lookup_fixed [of "''FreeBSD''"]
  by (simp add: lower_eval)

section \<open>The installed state\<close>











section \<open>The version store\<close>

text \<open>
  Claim C8. For every identifier, \<^verbatim>\<open>save_local_version(identifier)\<close> followed by
  \<^verbatim>\<open>load_local_version()\<close> returns the record that was saved, in each of the three
  schemas, whatever version.json held before; reading the identifier back from it the
  way the entry points do gives the identifier.
\<close>

theorem save_then_load:
  "fst (load_local_version (snd (save_local_version_2ship v w))) =
     Inr (JObj [(''installed_version'', JStr v), (''repo'', JStr REPO_2ship)]) \<and>
   installed_id ''installed_version'' (snd (save_local_version_2ship v w)) = Inr (JStr v) \<and>
   fst (load_local_version (snd (save_local_version_kart v w))) =
     Inr (JObj [(''installed_version'', JStr v), (''repo'', JStr REPO_kart)]) \<and>
   installed_id ''installed_version'' (snd (save_local_version_kart v w)) = Inr (JStr v) \<and>
   fst (load_local_version (snd (save_local_version_nightly v w))) =
     Inr (JObj [(''latest_commit'', JStr v)]) \<and>
   installed_id ''latest_commit'' (snd (save_local_version_nightly v w)) = Inr (JStr v) \<and>
   fst (load_local_version (snd (save_local_version_lynks v w))) =
     Inr (JObj [(''download_url'', JStr v), (''repo'', JStr REPO_lynks),
                (''pr_number'', JNum PR_NUMBER)]) \<and>
   py_get (JObj [(''download_url'', JStr v), (''repo'', JStr REPO_lynks),
                 (''pr_number'', JNum PR_NUMBER)]) ''download_url'' = Inr (JStr v)"
  by (simp add: save_defs load_local_version_def installed_id_def installed_field_def)

section \<open>The newest release of Spaghettikart\<close>

text \<open>
  Claim C9. \<^verbatim>\<open>get_latest_any_release\<close> fails with the no-releases error when the
  listing is empty and otherwise returns its first element, so neither it nor the run
  ever takes element 0 of an empty list.
\<close>

theorem latest_any_release_first:
  "(releases_all en = Some [] \<longrightarrow> fst (get_latest_any_release en w) = Inl NoReleases) \<and>
   (releases_all en = Some (r # rs) \<longrightarrow> fst (get_latest_any_release en w) = Inr r) \<and>
   fst (get_latest_any_release en w) \<noteq> Inl IndexError \<and>
   fst (install_or_update_kart en w) \<noteq> Inl IndexError"
proof -
  have a: "fst (get_latest_any_release en w) \<noteq> Inl IndexError"
    by (simp add: get_latest_any_release_def then_do_alt first_release_def
          split: option.splits list.splits)
  have b: "fst (installed_field k l w) \<noteq> Inl IndexError" for k l
    by (cases l) (simp_all add: installed_field_def split: option.splits)
  have c: "fst (load_local_version w) \<noteq> Inl IndexError"
    by (simp add: load_local_version_def split: version_json.splits)
  have d: "get_os_tag s \<noteq> Inl IndexError" for s
    by (simp add: get_os_tag_def Let_def)
  have "fst (install_or_update_kart en w) \<noteq> Inl IndexError"
    using a b c d
    by (auto simp: install_or_update_kart_def then_do_alt download_asset_def save_defs
          extract_zip_proj Let_def split: run_splits)
  then show ?thesis
    using a
    by (auto simp: get_latest_any_release_def then_do_alt first_release_def)
qed

theorem latest_any_release_first_witness:
  "fst (get_latest_any_release (sample_env\<lparr>releases_all := Some []\<rparr>) fresh_world)
     = Inl NoReleases \<and>
   fst (get_latest_any_release sample_env fresh_world) = Inr sample_release"
  using latest_any_release_first [of "sample_env\<lparr>releases_all := Some []\<rparr>" fresh_world]
    latest_any_release_first [of sample_env fresh_world sample_release "[]"]
  by (simp add: sample_env_def)

section \<open>The up-to-date run\<close>

text \<open>
  What the release and nightly scripts do when the installed identifier equals the
  remote one: the release scripts return right after the request, the nightly scripts
  clear the downloads folder first.
\<close>

lemma up_to_date_release:
  "(installed_id ''installed_version'' w = Inr (JStr (tag_name rel)) \<and>
    releases_latest en = Some rel \<longrightarrow>
      install_or_update_2ship en w = (Inr (), log (EvRequest get_latest_release_url True) w)) \<and>
   (installed_id ''installed_version'' w = Inr (JStr (tag_name rel)) \<and>
    releases_all en = Some (rel # rels) \<longrightarrow>
      install_or_update_kart en w = (Inr (), log (EvRequest get_latest_any_release_url True) w))"
  by (auto simp: install_or_update_2ship_def install_or_update_kart_def installed_id_def
        then_do_alt get_latest_release_def get_latest_any_release_def first_release_def
        prod_eq_iff split: sum.splits)

lemma up_to_date_nightly:
  assumes "installed_id ''latest_commit'' w = Inr (JStr sha)" and "commits_branch en = Some sha"
  shows "fst (install_latest_nightly_soh en w) = Inr () \<and>
         calls w (install_latest_nightly_soh en w)
           = [EvRequest get_latest_commit_sha_soh_url True, EvClear] \<and>
         downloads (snd (install_latest_nightly_soh en w)) = None \<and>
         fst (install_latest_nightly_kart en w) = Inr () \<and>
         calls w (install_latest_nightly_kart en w)
           = [EvRequest get_latest_commit_sha_kart_url True, EvClear] \<and>
         downloads (snd (install_latest_nightly_kart en w)) = None"
  using assms
  by (auto simp: install_latest_nightly_soh_def install_latest_nightly_kart_def installed_id_def
        then_do_alt get_latest_commit_sha_soh_def get_latest_commit_sha_kart_def
        split: sum.splits)

text \<open>
  Claim C2. A run that finds the installed identifier equal to the remote one makes no
  download and no extraction and still clears the downloads folder.

  The run of 2ship-Updatescript.py below finds version 1.0.1 installed and 1.0.1
  online: it makes the one request and returns, and the archive that was in the
  downloads folder is still there.
\<close>

theorem up_to_date_2ship_keeps_downloads:
  "fst (install_or_update_2ship sample_env stale_world) = Inr () \<and>
   calls stale_world (install_or_update_2ship sample_env stale_world)
     = [EvRequest get_latest_release_url True] \<and>
   (case downloads (snd (install_or_update_2ship sample_env stale_world)) of
      None \<Rightarrow> None | Some d \<Rightarrow> d ''old-Linux.zip'') = Some ''PK''"
  by code_simp

section \<open>Unsupported platforms\<close>

text \<open>
  Claim C3. On a platform name outside the OS map the run fails with the
  unsupported-OS error before any network request is issued.

  As stated this fails for the release and nightly scripts, which ask the remote
  source for its identifier before they look at the platform: on FreeBSD the run of
  SoH-Updatescript-Nightly.py has requested the latest commit when it raises.
\<close>

theorem unsupported_os_after_request_counterexample:
  "py_lower (platform_system (sample_env\<lparr>platform_system := ''FreeBSD''\<rparr>))
     \<notin> {''windows'', ''linux'', ''darwin''} \<and>
   fst (install_latest_nightly_soh (sample_env\<lparr>platform_system := ''FreeBSD''\<rparr>) fresh_world)
     = Inl (UnsupportedOS ''freebsd'') \<and>
   calls fresh_world
     (install_latest_nightly_soh (sample_env\<lparr>platform_system := ''FreeBSD''\<rparr>) fresh_world)
     = [EvRequest get_latest_commit_sha_soh_url True]"
  by code_simp

lemma unsupported_os:
  assumes "py_lower system \<notin> {''windows'', ''linux'', ''darwin''}"
  shows "get_os_target_word system = Inl (UnsupportedOS (py_lower system))"
    and "get_os_tag system = Inl (UnsupportedOS (py_lower system))"
    and "get_os_zip_name_soh system = Inl (UnsupportedOS (py_lower system))"
    and "get_os_zip_name_kart system = Inl (UnsupportedOS (py_lower system))"
    and "get_os_key system = Inl (UnsupportedOS (py_lower system))"
  using assms by (simp_all add: os_defs)

lemma unsupported_2ship:
  assumes "py_lower (platform_system en) \<notin> {''windows'', ''linux'', ''darwin''}"
  shows "filter is_fetch (calls w (install_or_update_2ship en w)) = []"
    and "version_file (snd (install_or_update_2ship en w)) = version_file w"
    and "installed_id ''installed_version'' w = Inr inst \<Longrightarrow> releases_latest en = Some rel \<Longrightarrow>
         inst \<noteq> JStr (tag_name rel) \<Longrightarrow>
         fst (install_or_update_2ship en w) = Inl (UnsupportedOS (py_lower (platform_system en))) \<and>
         calls w (install_or_update_2ship en w) = [EvRequest get_latest_release_url True]"
  by (auto simp: install_or_update_2ship_def run_simps unsupported_os [OF assms] installed_id_def
        split: run_splits)

lemma unsupported_kart:
  assumes "py_lower (platform_system en) \<notin> {''windows'', ''linux'', ''darwin''}"
  shows "filter is_fetch (calls w (install_or_update_kart en w)) = []"
    and "version_file (snd (install_or_update_kart en w)) = version_file w"
    and "installed_id ''installed_version'' w = Inr inst \<Longrightarrow> releases_all en = Some (rel # rels) \<Longrightarrow>
         inst \<noteq> JStr (tag_name rel) \<Longrightarrow>
         fst (install_or_update_kart en w) = Inl (UnsupportedOS (py_lower (platform_system en))) \<and>
         calls w (install_or_update_kart en w) = [EvRequest get_latest_any_release_url True]"
  by (auto simp: install_or_update_kart_def run_simps unsupported_os [OF assms] installed_id_def
        first_release_def split: run_splits)

lemma unsupported_nightly_soh:
  assumes "py_lower (platform_system en) \<notin> {''windows'', ''linux'', ''darwin''}"
  shows "filter is_fetch (calls w (install_latest_nightly_soh en w)) = []"
    and "version_file (snd (install_latest_nightly_soh en w)) = version_file w"
    and "installed_id ''latest_commit'' w = Inr inst \<Longrightarrow> commits_branch en = Some sha \<Longrightarrow>
         inst \<noteq> JStr sha \<Longrightarrow>
         fst (install_latest_nightly_soh en w) = Inl (UnsupportedOS (py_lower (platform_system en))) \<and>
         calls w (install_latest_nightly_soh en w) = [EvRequest get_latest_commit_sha_soh_url True]"
  by (auto simp: install_latest_nightly_soh_def run_simps unsupported_os [OF assms] installed_id_def
        split: run_splits)

lemma unsupported_nightly_kart:
  assumes "py_lower (platform_system en) \<notin> {''windows'', ''linux'', ''darwin''}"
  shows "filter is_fetch (calls w (install_latest_nightly_kart en w)) = []"
    and "version_file (snd (install_latest_nightly_kart en w)) = version_file w"
    and "installed_id ''latest_commit'' w = Inr inst \<Longrightarrow> commits_branch en = Some sha \<Longrightarrow>
         inst \<noteq> JStr sha \<Longrightarrow>
         fst (install_latest_nightly_kart en w) = Inl (UnsupportedOS (py_lower (platform_system en))) \<and>
         calls w (install_latest_nightly_kart en w) = [EvRequest get_latest_commit_sha_kart_url True]"
  by (auto simp: install_latest_nightly_kart_def run_simps unsupported_os [OF assms] installed_id_def
        split: run_splits)

lemma unsupported_lynks:
  assumes "py_lower (platform_system en) \<notin> {''windows'', ''linux'', ''darwin''}"
  shows "install_or_update_from_pr en w = (Inl (UnsupportedOS (py_lower (platform_system en))), w)"
  by (simp add: install_or_update_from_pr_def then_do_def pure_def unsupported_os [OF assms])

text \<open>
  Claim C3, amended. On a platform name outside the OS map: the PR script fails with
  the unsupported-OS error before any call (the world is unchanged); the release and
  nightly scripts never download, extract or write version.json, and, once the
  remote identifier has been read and differs from the installed one, they fail with
  the unsupported-OS error after exactly that one request.
\<close>

theorem unsupported_os_run:
  assumes "py_lower (platform_system en) \<notin> {''windows'', ''linux'', ''darwin''}"
  shows
    "install_or_update_from_pr en w = (Inl (UnsupportedOS (py_lower (platform_system en))), w) \<and>
     (run \<in> set release_scripts \<longrightarrow>
        filter is_fetch (calls w (run en w)) = [] \<and>
        version_file (snd (run en w)) = version_file w) \<and>
     (installed_id ''installed_version'' w = Inr inst \<and> releases_latest en = Some rel \<and>
      inst \<noteq> JStr (tag_name rel) \<longrightarrow>
        fst (install_or_update_2ship en w) = Inl (UnsupportedOS (py_lower (platform_system en))) \<and>
        calls w (install_or_update_2ship en w) = [EvRequest get_latest_release_url True]) \<and>
     (installed_id ''installed_version'' w = Inr inst \<and> releases_all en = Some (rel # rels) \<and>
      inst \<noteq> JStr (tag_name rel) \<longrightarrow>
        fst (install_or_update_kart en w) = Inl (UnsupportedOS (py_lower (platform_system en))) \<and>
        calls w (install_or_update_kart en w) = [EvRequest get_latest_any_release_url True]) \<and>
     (installed_id ''latest_commit'' w = Inr inst \<and> commits_branch en = Some sha \<and>
      inst \<noteq> JStr sha \<longrightarrow>
        fst (install_latest_nightly_soh en w) = Inl (UnsupportedOS (py_lower (platform_system en))) \<and>
        calls w (install_latest_nightly_soh en w) = [EvRequest get_latest_commit_sha_soh_url True] \<and>
        fst (install_latest_nightly_kart en w) = Inl (UnsupportedOS (py_lower (platform_system en))) \<and>
        calls w (install_latest_nightly_kart en w) = [EvRequest get_latest_commit_sha_kart_url True])"
  using unsupported_lynks [OF assms] unsupported_2ship [OF assms] unsupported_kart [OF assms]
    unsupported_nightly_soh [OF assms] unsupported_nightly_kart [OF assms]
  by (auto simp: release_scripts_def)

theorem unsupported_os_run_witness:
  "py_lower (platform_system (sample_env\<lparr>platform_system := ''SunOS''\<rparr>))
     \<notin> {''windows'', ''linux'', ''darwin''} \<and>
   install_or_update_from_pr (sample_env\<lparr>platform_system := ''SunOS''\<rparr>) fresh_world
     = (Inl (UnsupportedOS ''sunos''), fresh_world) \<and>
   install_or_update_2ship \<in> set release_scripts \<and>
   filter is_fetch (calls fresh_world
     (install_or_update_2ship (sample_env\<lparr>platform_system := ''SunOS''\<rparr>) fresh_world)) = [] \<and>
   installed_id ''installed_version'' fresh_world = Inr JNull \<and>
   fst (install_or_update_2ship (sample_env\<lparr>platform_system := ''SunOS''\<rparr>) fresh_world)
     = Inl (UnsupportedOS ''sunos'')"
proof -
  let ?en = "sample_env\<lparr>platform_system := ''SunOS''\<rparr>"
  have a: "py_lower (platform_system ?en) \<notin> {''windows'', ''linux'', ''darwin''}"
    by code_simp
  have l: "py_lower (platform_system ?en) = ''sunos''"
    by code_simp
  have b: "install_or_update_2ship \<in> set release_scripts"
    by (simp add: release_scripts_def)
  have c: "installed_id ''installed_version'' fresh_world = Inr JNull"
    by code_simp
  have d: "releases_latest ?en = Some sample_release" "JNull \<noteq> JStr (tag_name sample_release)"
    by (simp_all add: sample_env_def)
  show ?thesis
    using unsupported_os_run [OF a, of fresh_world install_or_update_2ship JNull sample_release]
      a b c d l
    by simp
qed

section \<open>Errors and the calls that follow them\<close>

















section \<open>Strings, matches and the links found\<close>

subsection \<open>Characters\<close>






subsection \<open>Literals\<close>



subsection \<open>Scanning\<close>





subsection \<open>The dict built by the loops\<close>
















section \<open>Links in the PR description\<close>



















section \<open>Links scraped from the PR page\<close>

















end
